theory Spec2Isabelle
  imports Main
begin

section \<open>The sqler package: database/sql behind interfaces\<close>

text \<open>
  The package \<^verbatim>\<open>sqler\<close> (file \<^verbatim>\<open>sqler.go\<close>) wraps the handles of Go's
  \<^verbatim>\<open>database/sql\<close> in interface types. Every method of a wrapper forwards to the
  library; the theory below embeds each wrapper method as a HOL function and proves what
  the specification says about it.

  Conventions of the embedding:
  \<^item> a Go pointer such as \<^verbatim>\<open>*sql.DB\<close> is the address it holds (address \<open>0\<close> is the nil
    pointer); the wrappers never inspect a pointer, they only pass it on;
  \<^item> a value of a Go interface type that may be nil (\<^verbatim>\<open>error\<close>, \<^verbatim>\<open>sql.Result\<close>, and
    the wrapper interfaces in a result position) is an \<open>option\<close>, \<open>None\<close> being nil;
  \<^item> a Go result list \<^verbatim>\<open>(T, error)\<close> is a pair;
  \<^item> a struct of the package is a datatype with one constructor that carries its fields,
    and an interface with several implementing structs is the sum of them;
  \<^item> \<^verbatim>\<open>database/sql\<close> itself is not part of the package: it is a parameter, a record of
    functions over a state \<open>'w\<close> of the library (pool, connections, server), about which
    nothing is assumed. The library functions are taken to return (a panic inside the
    library is not modelled);
  \<^item> every call of a wrapper into the library is appended to a log, so that which calls a
    wrapper makes, and in which order, is part of its result.
\<close>

subsection \<open>Values of the library\<close>

datatype error = Err string

datatype go_context = Ctx nat

datatype go_value = Value_nil | Value_int int | Value_string string | Value_pointer nat

datatype sql_TxOptions = TxOptions nat bool

datatype sql_DB = sql_DB nat
datatype sql_Conn = sql_Conn nat
datatype sql_Tx = sql_Tx nat
datatype sql_Stmt = sql_Stmt nat
datatype sql_Rows = sql_Rows nat
datatype sql_Row = sql_Row nat
datatype sql_Result = sql_Result nat

text \<open>
  \<^verbatim>\<open>SQLQueryer\<close> is the common interface of \<^verbatim>\<open>*sql.DB\<close>, \<^verbatim>\<open>*sql.Conn\<close> and \<^verbatim>\<open>*sql.Tx\<close>;
  \<^verbatim>\<open>SQLConn\<close> is the common interface of \<^verbatim>\<open>*sql.DB\<close> and \<^verbatim>\<open>*sql.Conn\<close>. A value of
  either interface is the pointer together with its dynamic type.
\<close>

datatype SQLQueryer = SQLQueryer_DB sql_DB | SQLQueryer_Conn sql_Conn | SQLQueryer_Tx sql_Tx

datatype SQLConn = SQLConn_DB sql_DB | SQLConn_Conn sql_Conn

text \<open>\<^verbatim>\<open>SQLConn\<close> embeds \<^verbatim>\<open>SQLQueryer\<close>: the conversion keeps the pointer.\<close>

fun SQLConn_SQLQueryer :: "SQLConn \<Rightarrow> SQLQueryer" where
  "SQLConn_SQLQueryer (SQLConn_DB db) = SQLQueryer_DB db"
| "SQLConn_SQLQueryer (SQLConn_Conn c) = SQLQueryer_Conn c"

subsection \<open>The library as a parameter\<close>

record 'w sql_lib =
  sql_Open :: "string \<Rightarrow> string \<Rightarrow> 'w \<Rightarrow> (sql_DB \<times> error option) \<times> 'w"
  sql_DB_Conn :: "sql_DB \<Rightarrow> go_context \<Rightarrow> 'w \<Rightarrow> (sql_Conn \<times> error option) \<times> 'w"
  sql_ExecContext ::
    "SQLQueryer \<Rightarrow> go_context \<Rightarrow> string \<Rightarrow> go_value list \<Rightarrow> 'w \<Rightarrow>
     (sql_Result option \<times> error option) \<times> 'w"
  sql_PrepareContext ::
    "SQLQueryer \<Rightarrow> go_context \<Rightarrow> string \<Rightarrow> 'w \<Rightarrow> (sql_Stmt \<times> error option) \<times> 'w"
  sql_QueryContext ::
    "SQLQueryer \<Rightarrow> go_context \<Rightarrow> string \<Rightarrow> go_value list \<Rightarrow> 'w \<Rightarrow>
     (sql_Rows \<times> error option) \<times> 'w"
  sql_QueryRowContext ::
    "SQLQueryer \<Rightarrow> go_context \<Rightarrow> string \<Rightarrow> go_value list \<Rightarrow> 'w \<Rightarrow> sql_Row \<times> 'w"
  sql_BeginTx ::
    "SQLConn \<Rightarrow> go_context \<Rightarrow> sql_TxOptions option \<Rightarrow> 'w \<Rightarrow> (sql_Tx \<times> error option) \<times> 'w"
  sql_Close :: "SQLConn \<Rightarrow> 'w \<Rightarrow> error option \<times> 'w"
  sql_PingContext :: "SQLConn \<Rightarrow> go_context \<Rightarrow> 'w \<Rightarrow> error option \<times> 'w"
  sql_Tx_Commit :: "sql_Tx \<Rightarrow> 'w \<Rightarrow> error option \<times> 'w"
  sql_Tx_Rollback :: "sql_Tx \<Rightarrow> 'w \<Rightarrow> error option \<times> 'w"
  sql_Tx_StmtContext :: "sql_Tx \<Rightarrow> go_context \<Rightarrow> sql_Stmt \<Rightarrow> 'w \<Rightarrow> sql_Stmt \<times> 'w"
  sql_Stmt_ExecContext ::
    "sql_Stmt \<Rightarrow> go_context \<Rightarrow> go_value list \<Rightarrow> 'w \<Rightarrow>
     (sql_Result option \<times> error option) \<times> 'w"
  sql_Stmt_QueryContext ::
    "sql_Stmt \<Rightarrow> go_context \<Rightarrow> go_value list \<Rightarrow> 'w \<Rightarrow> (sql_Rows \<times> error option) \<times> 'w"
  sql_Stmt_QueryRowContext ::
    "sql_Stmt \<Rightarrow> go_context \<Rightarrow> go_value list \<Rightarrow> 'w \<Rightarrow> sql_Row \<times> 'w"
  sql_Stmt_Close :: "sql_Stmt \<Rightarrow> 'w \<Rightarrow> error option \<times> 'w"
  sql_Row_Scan :: "sql_Row \<Rightarrow> go_value list \<Rightarrow> 'w \<Rightarrow> error option \<times> 'w"

text \<open>The calls a wrapper can make into the library, with their arguments.\<close>

datatype call =
    sql_Open_call string string
  | DB_Conn_call sql_DB go_context
  | ExecContext_call SQLQueryer go_context string "go_value list"
  | PrepareContext_call SQLQueryer go_context string
  | QueryContext_call SQLQueryer go_context string "go_value list"
  | QueryRowContext_call SQLQueryer go_context string "go_value list"
  | BeginTx_call SQLConn go_context "sql_TxOptions option"
  | Close_call SQLConn
  | PingContext_call SQLConn go_context
  | Tx_Commit_call sql_Tx
  | Tx_Rollback_call sql_Tx
  | Tx_StmtContext_call sql_Tx go_context sql_Stmt
  | Stmt_ExecContext_call sql_Stmt go_context "go_value list"
  | Stmt_QueryContext_call sql_Stmt go_context "go_value list"
  | Stmt_QueryRowContext_call sql_Stmt go_context "go_value list"
  | Stmt_Close_call sql_Stmt
  | Row_Scan_call sql_Row "go_value list"

text \<open>
  The state a wrapper runs in: the state of the library, which also holds the memory
  that scan destinations point to, and the log of the calls made so far.
\<close>

record 'w state =
  world :: 'w
  calls :: "call list"

text \<open>One call into the library: the library moves its state, the call is logged.\<close>

definition invoke :: "call \<Rightarrow> ('w \<Rightarrow> 'r \<times> 'w) \<Rightarrow> 'w state \<Rightarrow> 'r \<times> 'w state" where
  "invoke c f s =
     (case f (world s) of (r, w') \<Rightarrow> (r, \<lparr>world = w', calls = calls s @ [c]\<rparr>))"

subsection \<open>The structs and interfaces of the package\<close>

text \<open>
  \<^verbatim>\<open>wrappedQueryer\<close>, \<^verbatim>\<open>wrappedStmt\<close> and \<^verbatim>\<open>wrappedDB\<close> are the only values the package
  puts behind the interfaces \<^verbatim>\<open>Queryer\<close>, \<^verbatim>\<open>Stmt\<close> and \<^verbatim>\<open>DB\<close>. The interface \<^verbatim>\<open>Conn\<close>
  is implemented by \<^verbatim>\<open>wrappedConn\<close> and by \<^verbatim>\<open>wrappedDB\<close>, the interface \<^verbatim>\<open>Tx\<close> by
  \<^verbatim>\<open>wrappedTx\<close> and by \<^verbatim>\<open>connTx\<close> (a struct of a \<^verbatim>\<open>Conn\<close> and an embedded \<^verbatim>\<open>Tx\<close>), the
  interface \<^verbatim>\<open>Rows\<close> by \<^verbatim>\<open>*sql.Rows\<close>, and the interface \<^verbatim>\<open>Row\<close> by \<^verbatim>\<open>*sql.Row\<close> and by
  \<^verbatim>\<open>errRow\<close>.
\<close>

datatype wrappedQueryer = wrappedQueryer SQLQueryer
type_synonym Queryer = wrappedQueryer

datatype wrappedStmt = wrappedStmt sql_Stmt
type_synonym Stmt = wrappedStmt

datatype wrappedDB = wrappedDB sql_DB Queryer
type_synonym DB = wrappedDB

datatype wrappedConn = wrappedConn SQLConn Queryer

datatype Conn = Conn_wrappedConn wrappedConn | Conn_wrappedDB wrappedDB

datatype wrappedTx = wrappedTx sql_Tx Queryer

datatype Tx = Tx_wrappedTx wrappedTx | Tx_connTx Conn Tx

datatype Rows = Rows_sql sql_Rows

datatype errRow = errRow "error option"

datatype Row = Row_sql sql_Row | Row_errRow errRow

subsection \<open>Constructors\<close>

definition WrapQueryer :: "SQLQueryer \<Rightarrow> Queryer" where
  "WrapQueryer q = wrappedQueryer q"

definition WrapStmt :: "sql_Stmt \<Rightarrow> Stmt" where
  "WrapStmt stmt = wrappedStmt stmt"

definition WrapDB :: "sql_DB \<Rightarrow> DB" where
  "WrapDB db = wrappedDB db (WrapQueryer (SQLQueryer_DB db))"

definition WrapConn :: "SQLConn \<Rightarrow> Conn" where
  "WrapConn c = Conn_wrappedConn (wrappedConn c (WrapQueryer (SQLConn_SQLQueryer c)))"

definition Open :: "'w sql_lib \<Rightarrow> string \<Rightarrow> string \<Rightarrow> 'w state \<Rightarrow> (DB option \<times> error option) \<times> 'w state" where
  "Open L driverName dataSourceName s =
     (case invoke (sql_Open_call driverName dataSourceName)
             (sql_Open L driverName dataSourceName) s of
        ((db, err), s') \<Rightarrow>
          if err \<noteq> None then ((None, err), s')
          else ((Some (WrapDB db), None), s'))"

subsection \<open>wrappedQueryer\<close>

fun wrappedQueryer_Exec ::
  "'w sql_lib \<Rightarrow> wrappedQueryer \<Rightarrow> go_context \<Rightarrow> string \<Rightarrow> go_value list \<Rightarrow> 'w state \<Rightarrow>
   (sql_Result option \<times> error option) \<times> 'w state" where
  "wrappedQueryer_Exec L (wrappedQueryer q) ctx query args s =
     (case invoke (ExecContext_call q ctx query args)
             (sql_ExecContext L q ctx query args) s of
        ((r, err), s') \<Rightarrow>
          if err \<noteq> None then ((None, err), s')
          else ((r, None), s'))"

fun wrappedQueryer_Prepare ::
  "'w sql_lib \<Rightarrow> wrappedQueryer \<Rightarrow> go_context \<Rightarrow> string \<Rightarrow> 'w state \<Rightarrow>
   (Stmt option \<times> error option) \<times> 'w state" where
  "wrappedQueryer_Prepare L (wrappedQueryer q) ctx query s =
     (case invoke (PrepareContext_call q ctx query)
             (sql_PrepareContext L q ctx query) s of
        ((st, err), s') \<Rightarrow>
          if err \<noteq> None then ((None, err), s')
          else ((Some (WrapStmt st), None), s'))"

fun wrappedQueryer_Query ::
  "'w sql_lib \<Rightarrow> wrappedQueryer \<Rightarrow> go_context \<Rightarrow> string \<Rightarrow> go_value list \<Rightarrow> 'w state \<Rightarrow>
   (Rows option \<times> error option) \<times> 'w state" where
  "wrappedQueryer_Query L (wrappedQueryer q) ctx query args s =
     (case invoke (QueryContext_call q ctx query args)
             (sql_QueryContext L q ctx query args) s of
        ((rows, err), s') \<Rightarrow>
          if err \<noteq> None then ((None, err), s')
          else ((Some (Rows_sql rows), None), s'))"

fun wrappedQueryer_QueryRow ::
  "'w sql_lib \<Rightarrow> wrappedQueryer \<Rightarrow> go_context \<Rightarrow> string \<Rightarrow> go_value list \<Rightarrow> 'w state \<Rightarrow>
   Row \<times> 'w state" where
  "wrappedQueryer_QueryRow L (wrappedQueryer q) ctx query args s =
     (case invoke (QueryRowContext_call q ctx query args)
             (sql_QueryRowContext L q ctx query args) s of
        (row, s') \<Rightarrow> (Row_sql row, s'))"

subsection \<open>wrappedStmt\<close>

fun wrappedStmt_Exec ::
  "'w sql_lib \<Rightarrow> wrappedStmt \<Rightarrow> go_context \<Rightarrow> go_value list \<Rightarrow> 'w state \<Rightarrow>
   (sql_Result option \<times> error option) \<times> 'w state" where
  "wrappedStmt_Exec L (wrappedStmt st) ctx args s =
     (case invoke (Stmt_ExecContext_call st ctx args)
             (sql_Stmt_ExecContext L st ctx args) s of
        ((r, err), s') \<Rightarrow>
          if err \<noteq> None then ((None, err), s')
          else ((r, None), s'))"

fun wrappedStmt_Query ::
  "'w sql_lib \<Rightarrow> wrappedStmt \<Rightarrow> go_context \<Rightarrow> go_value list \<Rightarrow> 'w state \<Rightarrow>
   (Rows option \<times> error option) \<times> 'w state" where
  "wrappedStmt_Query L (wrappedStmt st) ctx args s =
     (case invoke (Stmt_QueryContext_call st ctx args)
             (sql_Stmt_QueryContext L st ctx args) s of
        ((w, err), s') \<Rightarrow>
          if err \<noteq> None then ((None, err), s')
          else ((Some (Rows_sql w), None), s'))"

fun wrappedStmt_QueryRow ::
  "'w sql_lib \<Rightarrow> wrappedStmt \<Rightarrow> go_context \<Rightarrow> go_value list \<Rightarrow> 'w state \<Rightarrow> Row \<times> 'w state" where
  "wrappedStmt_QueryRow L (wrappedStmt st) ctx args s =
     (case invoke (Stmt_QueryRowContext_call st ctx args)
             (sql_Stmt_QueryRowContext L st ctx args) s of
        (row, s') \<Rightarrow> (Row_sql row, s'))"

fun wrappedStmt_Unwrap :: "wrappedStmt \<Rightarrow> sql_Stmt" where
  "wrappedStmt_Unwrap (wrappedStmt st) = st"

text \<open>\<^verbatim>\<open>Close\<close> of a \<^verbatim>\<open>wrappedStmt\<close> is the method of the embedded \<^verbatim>\<open>*sql.Stmt\<close>.\<close>

fun wrappedStmt_Close :: "'w sql_lib \<Rightarrow> wrappedStmt \<Rightarrow> 'w state \<Rightarrow> error option \<times> 'w state" where
  "wrappedStmt_Close L (wrappedStmt st) s = invoke (Stmt_Close_call st) (sql_Stmt_Close L st) s"

subsection \<open>wrappedConn\<close>

fun wrappedConn_BeginTx ::
  "'w sql_lib \<Rightarrow> wrappedConn \<Rightarrow> go_context \<Rightarrow> sql_TxOptions option \<Rightarrow> 'w state \<Rightarrow>
   (Tx option \<times> error option) \<times> 'w state" where
  "wrappedConn_BeginTx L (wrappedConn c q) ctx opts s =
     (case invoke (BeginTx_call c ctx opts) (sql_BeginTx L c ctx opts) s of
        ((tx, err), s') \<Rightarrow>
          if err \<noteq> None then ((None, err), s')
          else ((Some (Tx_wrappedTx (wrappedTx tx (WrapQueryer (SQLQueryer_Tx tx)))), None), s'))"

fun wrappedConn_Close :: "'w sql_lib \<Rightarrow> wrappedConn \<Rightarrow> 'w state \<Rightarrow> error option \<times> 'w state" where
  "wrappedConn_Close L (wrappedConn c q) s = invoke (Close_call c) (sql_Close L c) s"

fun wrappedConn_Ping ::
  "'w sql_lib \<Rightarrow> wrappedConn \<Rightarrow> go_context \<Rightarrow> 'w state \<Rightarrow> error option \<times> 'w state" where
  "wrappedConn_Ping L (wrappedConn c q) ctx s =
     invoke (PingContext_call c ctx) (sql_PingContext L c ctx) s"

text \<open>The query methods of a \<^verbatim>\<open>wrappedConn\<close> are those of its embedded \<^verbatim>\<open>Queryer\<close>.\<close>

fun wrappedConn_Queryer :: "wrappedConn \<Rightarrow> Queryer" where
  "wrappedConn_Queryer (wrappedConn c q) = q"

subsection \<open>wrappedDB\<close>

fun wrappedDB_Conn ::
  "'w sql_lib \<Rightarrow> wrappedDB \<Rightarrow> go_context \<Rightarrow> 'w state \<Rightarrow> (Conn option \<times> error option) \<times> 'w state" where
  "wrappedDB_Conn L (wrappedDB db q) ctx s =
     (case invoke (DB_Conn_call db ctx) (sql_DB_Conn L db ctx) s of
        ((c, err), s') \<Rightarrow>
          if err \<noteq> None then ((None, err), s')
          else ((Some (WrapConn (SQLConn_Conn c)), None), s'))"

fun wrappedDB_Unwrap :: "wrappedDB \<Rightarrow> sql_DB" where
  "wrappedDB_Unwrap (wrappedDB db q) = db"

fun wrappedDB_BeginTx ::
  "'w sql_lib \<Rightarrow> wrappedDB \<Rightarrow> go_context \<Rightarrow> sql_TxOptions option \<Rightarrow> 'w state \<Rightarrow>
   (Tx option \<times> error option) \<times> 'w state" where
  "wrappedDB_BeginTx L (wrappedDB db q) ctx opts s =
     (case invoke (BeginTx_call (SQLConn_DB db) ctx opts)
             (sql_BeginTx L (SQLConn_DB db) ctx opts) s of
        ((tx, err), s') \<Rightarrow>
          if err \<noteq> None then ((None, err), s')
          else ((Some (Tx_wrappedTx (wrappedTx tx (WrapQueryer (SQLQueryer_Tx tx)))), None), s'))"

text \<open>\<^verbatim>\<open>Close\<close> of a \<^verbatim>\<open>wrappedDB\<close> is the method of the embedded \<^verbatim>\<open>*sql.DB\<close>.\<close>

fun wrappedDB_Close :: "'w sql_lib \<Rightarrow> wrappedDB \<Rightarrow> 'w state \<Rightarrow> error option \<times> 'w state" where
  "wrappedDB_Close L (wrappedDB db q) s =
     invoke (Close_call (SQLConn_DB db)) (sql_Close L (SQLConn_DB db)) s"

fun wrappedDB_Exec ::
  "'w sql_lib \<Rightarrow> wrappedDB \<Rightarrow> go_context \<Rightarrow> string \<Rightarrow> go_value list \<Rightarrow> 'w state \<Rightarrow>
   (sql_Result option \<times> error option) \<times> 'w state" where
  "wrappedDB_Exec L (wrappedDB db q) ctx query args s = wrappedQueryer_Exec L q ctx query args s"

fun wrappedDB_Prepare ::
  "'w sql_lib \<Rightarrow> wrappedDB \<Rightarrow> go_context \<Rightarrow> string \<Rightarrow> 'w state \<Rightarrow>
   (Stmt option \<times> error option) \<times> 'w state" where
  "wrappedDB_Prepare L (wrappedDB db q) ctx query s = wrappedQueryer_Prepare L q ctx query s"

fun wrappedDB_Query ::
  "'w sql_lib \<Rightarrow> wrappedDB \<Rightarrow> go_context \<Rightarrow> string \<Rightarrow> go_value list \<Rightarrow> 'w state \<Rightarrow>
   (Rows option \<times> error option) \<times> 'w state" where
  "wrappedDB_Query L (wrappedDB db q) ctx query args s = wrappedQueryer_Query L q ctx query args s"

fun wrappedDB_QueryRow ::
  "'w sql_lib \<Rightarrow> wrappedDB \<Rightarrow> go_context \<Rightarrow> string \<Rightarrow> go_value list \<Rightarrow> 'w state \<Rightarrow>
   Row \<times> 'w state" where
  "wrappedDB_QueryRow L (wrappedDB db q) ctx query args s =
     wrappedQueryer_QueryRow L q ctx query args s"

subsection \<open>The interface Conn\<close>

text \<open>A method call on a \<^verbatim>\<open>Conn\<close> goes to the method of the struct behind it.\<close>

fun Conn_Close :: "'w sql_lib \<Rightarrow> Conn \<Rightarrow> 'w state \<Rightarrow> error option \<times> 'w state" where
  "Conn_Close L (Conn_wrappedConn c) s = wrappedConn_Close L c s"
| "Conn_Close L (Conn_wrappedDB db) s = wrappedDB_Close L db s"

fun Conn_BeginTx ::
  "'w sql_lib \<Rightarrow> Conn \<Rightarrow> go_context \<Rightarrow> sql_TxOptions option \<Rightarrow> 'w state \<Rightarrow>
   (Tx option \<times> error option) \<times> 'w state" where
  "Conn_BeginTx L (Conn_wrappedConn c) ctx opts s = wrappedConn_BeginTx L c ctx opts s"
| "Conn_BeginTx L (Conn_wrappedDB db) ctx opts s = wrappedDB_BeginTx L db ctx opts s"

fun Conn_QueryRow ::
  "'w sql_lib \<Rightarrow> Conn \<Rightarrow> go_context \<Rightarrow> string \<Rightarrow> go_value list \<Rightarrow> 'w state \<Rightarrow> Row \<times> 'w state" where
  "Conn_QueryRow L (Conn_wrappedConn c) ctx query args s =
     wrappedQueryer_QueryRow L (wrappedConn_Queryer c) ctx query args s"
| "Conn_QueryRow L (Conn_wrappedDB db) ctx query args s = wrappedDB_QueryRow L db ctx query args s"


text \<open>
  \<^verbatim>\<open>Ping\<close> of a \<^verbatim>\<open>wrappedDB\<close> leases a connection with \<^verbatim>\<open>db.Conn\<close>, defers its \<^verbatim>\<open>Close\<close>
  and returns what its \<^verbatim>\<open>Ping\<close> returns. Both calls are method calls on a value of the
  interface \<^verbatim>\<open>Conn\<close>: on a nil interface value Go panics, and on a \<^verbatim>\<open>wrappedDB\<close> the call
  is \<^verbatim>\<open>Ping\<close> of \<^verbatim>\<open>wrappedDB\<close> again. The function below follows both; it terminates
  because \<^verbatim>\<open>db.Conn\<close> only ever returns a \<^verbatim>\<open>wrappedConn\<close>.
\<close>

datatype 'a outcome = Return 'a | Panic

function Conn_Ping ::
  "'w sql_lib \<Rightarrow> Conn \<Rightarrow> go_context \<Rightarrow> 'w state \<Rightarrow> error option outcome \<times> 'w state"
and wrappedDB_Ping ::
  "'w sql_lib \<Rightarrow> wrappedDB \<Rightarrow> go_context \<Rightarrow> 'w state \<Rightarrow> error option outcome \<times> 'w state" where
  "Conn_Ping L (Conn_wrappedConn c) ctx s =
     (case wrappedConn_Ping L c ctx s of (r, s') \<Rightarrow> (Return r, s'))"
| "Conn_Ping L (Conn_wrappedDB db) ctx s = wrappedDB_Ping L db ctx s"
| "wrappedDB_Ping L db ctx s =
     (case wrappedDB_Conn L db ctx s of
        ((conn, err), s1) \<Rightarrow>
          if err \<noteq> None then (Return err, s1)
          else (case conn of
                  None \<Rightarrow> (Panic, s1)
                | Some c \<Rightarrow>
                    (case Conn_Ping L c ctx s1 of
                       (r, s2) \<Rightarrow> (case Conn_Close L c s2 of (_, s3) \<Rightarrow> (r, s3)))))"
  by pat_completeness auto
termination
proof (relation "measure (\<lambda>x. case x of
          Inl (L, c, ctx, s) \<Rightarrow> (case c of Conn_wrappedConn _ \<Rightarrow> 0 | Conn_wrappedDB _ \<Rightarrow> 2)
        | Inr _ \<Rightarrow> Suc 0)", goal_cases)
  case 1
  show ?case by simp
next
  case 2
  show ?case by simp
next
  case (3 L db ctx s x s1 conn err c)
  then show ?case
    by (cases db) (auto simp: WrapConn_def split: prod.splits if_splits)
qed

subsection \<open>wrappedTx and connTx: the interface Tx\<close>

fun wrappedTx_Commit :: "'w sql_lib \<Rightarrow> wrappedTx \<Rightarrow> 'w state \<Rightarrow> error option \<times> 'w state" where
  "wrappedTx_Commit L (wrappedTx tx q) s = invoke (Tx_Commit_call tx) (sql_Tx_Commit L tx) s"

fun wrappedTx_Rollback :: "'w sql_lib \<Rightarrow> wrappedTx \<Rightarrow> 'w state \<Rightarrow> error option \<times> 'w state" where
  "wrappedTx_Rollback L (wrappedTx tx q) s =
     invoke (Tx_Rollback_call tx) (sql_Tx_Rollback L tx) s"

fun wrappedTx_Stmt ::
  "'w sql_lib \<Rightarrow> wrappedTx \<Rightarrow> go_context \<Rightarrow> Stmt \<Rightarrow> 'w state \<Rightarrow> Stmt \<times> 'w state" where
  "wrappedTx_Stmt L (wrappedTx tx q) ctx stmt s =
     (case invoke (Tx_StmtContext_call tx ctx (wrappedStmt_Unwrap stmt))
             (sql_Tx_StmtContext L tx ctx (wrappedStmt_Unwrap stmt)) s of
        (st, s') \<Rightarrow> (WrapStmt st, s'))"

text \<open>The query methods of a \<^verbatim>\<open>wrappedTx\<close> are those of its embedded \<^verbatim>\<open>Queryer\<close>.\<close>

fun wrappedTx_Queryer :: "wrappedTx \<Rightarrow> Queryer" where
  "wrappedTx_Queryer (wrappedTx tx q) = q"

text \<open>
  \<^verbatim>\<open>connTx\<close> defines \<^verbatim>\<open>Commit\<close> and \<^verbatim>\<open>Rollback\<close>: each defers \<^verbatim>\<open>tx.c.Close()\<close> and returns
  what the embedded \<^verbatim>\<open>Tx\<close> returns. The deferred call runs after the result is
  computed, and what it returns is dropped. Every other method of a \<^verbatim>\<open>connTx\<close> is the
  method of the embedded \<^verbatim>\<open>Tx\<close>.
\<close>

fun Tx_Commit :: "'w sql_lib \<Rightarrow> Tx \<Rightarrow> 'w state \<Rightarrow> error option \<times> 'w state" where
  "Tx_Commit L (Tx_wrappedTx t) s = wrappedTx_Commit L t s"
| "Tx_Commit L (Tx_connTx c tx) s =
     (case Tx_Commit L tx s of
        (r, s1) \<Rightarrow> (case Conn_Close L c s1 of (_, s2) \<Rightarrow> (r, s2)))"

fun Tx_Rollback :: "'w sql_lib \<Rightarrow> Tx \<Rightarrow> 'w state \<Rightarrow> error option \<times> 'w state" where
  "Tx_Rollback L (Tx_wrappedTx t) s = wrappedTx_Rollback L t s"
| "Tx_Rollback L (Tx_connTx c tx) s =
     (case Tx_Rollback L tx s of
        (r, s1) \<Rightarrow> (case Conn_Close L c s1 of (_, s2) \<Rightarrow> (r, s2)))"

fun Tx_Stmt ::
  "'w sql_lib \<Rightarrow> Tx \<Rightarrow> go_context \<Rightarrow> Stmt \<Rightarrow> 'w state \<Rightarrow> Stmt \<times> 'w state" where
  "Tx_Stmt L (Tx_wrappedTx t) ctx stmt s = wrappedTx_Stmt L t ctx stmt s"
| "Tx_Stmt L (Tx_connTx c tx) ctx stmt s = Tx_Stmt L tx ctx stmt s"

fun Tx_QueryRow ::
  "'w sql_lib \<Rightarrow> Tx \<Rightarrow> go_context \<Rightarrow> string \<Rightarrow> go_value list \<Rightarrow> 'w state \<Rightarrow> Row \<times> 'w state" where
  "Tx_QueryRow L (Tx_wrappedTx t) ctx query args s =
     wrappedQueryer_QueryRow L (wrappedTx_Queryer t) ctx query args s"
| "Tx_QueryRow L (Tx_connTx c tx) ctx query args s = Tx_QueryRow L tx ctx query args s"

subsection \<open>Row\<close>

fun errRow_Scan :: "errRow \<Rightarrow> go_value list \<Rightarrow> 'w state \<Rightarrow> error option \<times> 'w state" where
  "errRow_Scan (errRow err) dest s = (err, s)"

text \<open>\<^verbatim>\<open>Scan\<close> on a \<^verbatim>\<open>Row\<close>: the library's scan of a \<^verbatim>\<open>*sql.Row\<close>, or \<^verbatim>\<open>errRow.Scan\<close>.\<close>

fun Row_Scan :: "'w sql_lib \<Rightarrow> Row \<Rightarrow> go_value list \<Rightarrow> 'w state \<Rightarrow> error option \<times> 'w state" where
  "Row_Scan L (Row_sql r) dest s = invoke (Row_Scan_call r dest) (sql_Row_Scan L r dest) s"
| "Row_Scan L (Row_errRow e) dest s = errRow_Scan e dest s"

subsection \<open>What is behind a wrapper\<close>

text \<open>
  The statements below name the library object a wrapper forwards to: the
  \<^verbatim>\<open>SQLQueryer\<close> in a \<^verbatim>\<open>wrappedQueryer\<close>, the \<^verbatim>\<open>SQLConn\<close> that \<^verbatim>\<open>Close\<close> of a \<^verbatim>\<open>Conn\<close>
  reaches, the \<^verbatim>\<open>Queryer\<close> that the query methods of a \<^verbatim>\<open>Conn\<close> or a \<^verbatim>\<open>Tx\<close> reach through
  embedding, and the \<^verbatim>\<open>*sql.Tx\<close> at the bottom of a \<^verbatim>\<open>Tx\<close>.
\<close>

fun wrappedQueryer_SQLQueryer :: "wrappedQueryer \<Rightarrow> SQLQueryer" where
  "wrappedQueryer_SQLQueryer (wrappedQueryer q) = q"

fun Conn_SQLConn :: "Conn \<Rightarrow> SQLConn" where
  "Conn_SQLConn (Conn_wrappedConn (wrappedConn c q)) = c"
| "Conn_SQLConn (Conn_wrappedDB (wrappedDB db q)) = SQLConn_DB db"

fun Conn_Queryer :: "Conn \<Rightarrow> Queryer" where
  "Conn_Queryer (Conn_wrappedConn (wrappedConn c q)) = q"
| "Conn_Queryer (Conn_wrappedDB (wrappedDB db q)) = q"

fun Tx_Queryer :: "Tx \<Rightarrow> Queryer" where
  "Tx_Queryer (Tx_wrappedTx (wrappedTx t q)) = q"
| "Tx_Queryer (Tx_connTx c tx) = Tx_Queryer tx"

fun Tx_sql_Tx :: "Tx \<Rightarrow> sql_Tx" where
  "Tx_sql_Tx (Tx_wrappedTx (wrappedTx t q)) = t"
| "Tx_sql_Tx (Tx_connTx c tx) = Tx_sql_Tx tx"

subsection \<open>A scripted library to run the wrappers on\<close>

text \<open>
  To run the wrappers on concrete inputs the library parameter is instantiated with a
  scripted stand-in: its state is the list of the outcomes of the calls to come (an error
  or none; none when the list is exhausted) and the next free address. A call that can
  fail takes the next outcome; a call that returns a pointer returns a fresh address on
  success and the nil pointer on failure; a successful execution returns a result at a
  fresh address.
\<close>

record script_world =
  script :: "error option list"
  fresh :: nat

definition script_outcome :: "script_world \<Rightarrow> error option \<times> script_world" where
  "script_outcome w = (case script w of [] \<Rightarrow> (None, w) | e # es \<Rightarrow> (e, w\<lparr>script := es\<rparr>))"

definition script_pointer :: "(nat \<Rightarrow> 'a) \<Rightarrow> script_world \<Rightarrow> 'a \<times> script_world" where
  "script_pointer mk w = (mk (fresh w), w\<lparr>fresh := Suc (fresh w)\<rparr>)"

definition script_open :: "(nat \<Rightarrow> 'a) \<Rightarrow> script_world \<Rightarrow> ('a \<times> error option) \<times> script_world" where
  "script_open mk w =
     (case script_outcome w of
        (None, w1) \<Rightarrow> (case script_pointer mk w1 of (p, w2) \<Rightarrow> ((p, None), w2))
      | (Some e, w1) \<Rightarrow> ((mk 0, Some e), w1))"

definition script_exec :: "script_world \<Rightarrow> (sql_Result option \<times> error option) \<times> script_world" where
  "script_exec w =
     (case script_outcome w of
        (None, w1) \<Rightarrow> (case script_pointer sql_Result w1 of (r, w2) \<Rightarrow> ((Some r, None), w2))
      | (Some e, w1) \<Rightarrow> ((None, Some e), w1))"

definition script_lib :: "script_world sql_lib" where
  "script_lib =
     \<lparr> sql_Open = (\<lambda>driverName dataSourceName. script_open sql_DB),
       sql_DB_Conn = (\<lambda>db ctx. script_open sql_Conn),
       sql_ExecContext = (\<lambda>q ctx query args. script_exec),
       sql_PrepareContext = (\<lambda>q ctx query. script_open sql_Stmt),
       sql_QueryContext = (\<lambda>q ctx query args. script_open sql_Rows),
       sql_QueryRowContext = (\<lambda>q ctx query args. script_pointer sql_Row),
       sql_BeginTx = (\<lambda>c ctx opts. script_open sql_Tx),
       sql_Close = (\<lambda>c. script_outcome),
       sql_PingContext = (\<lambda>c ctx. script_outcome),
       sql_Tx_Commit = (\<lambda>tx. script_outcome),
       sql_Tx_Rollback = (\<lambda>tx. script_outcome),
       sql_Tx_StmtContext = (\<lambda>tx ctx stmt. script_pointer sql_Stmt),
       sql_Stmt_ExecContext = (\<lambda>stmt ctx args. script_exec),
       sql_Stmt_QueryContext = (\<lambda>stmt ctx args. script_open sql_Rows),
       sql_Stmt_QueryRowContext = (\<lambda>stmt ctx args. script_pointer sql_Row),
       sql_Stmt_Close = (\<lambda>stmt. script_outcome),
       sql_Row_Scan = (\<lambda>row dest. script_outcome) \<rparr>"

text \<open>The state in which the calls to come have the outcomes \<open>es\<close>; nothing is logged yet.\<close>

definition scripted :: "error option list \<Rightarrow> script_world state" where
  "scripted es = \<lparr>world = \<lparr>script = es, fresh = 1\<rparr>, calls = []\<rparr>"

section \<open>Properties\<close>

subsection \<open>Auxiliary facts\<close>

lemma invoke_fst_snd:
  "invoke c f s = (fst (f (world s)), \<lparr>world = snd (f (world s)), calls = calls s @ [c]\<rparr>)"
  by (simp add: invoke_def split: prod.splits)

lemma Conn_Close_invoke:
  "Conn_Close L c s = invoke (Close_call (Conn_SQLConn c)) (sql_Close L (Conn_SQLConn c)) s"
  by (induction c rule: Conn_SQLConn.induct) simp_all

lemma calls_Conn_Close:
  "calls (snd (Conn_Close L c s)) = calls s @ [Close_call (Conn_SQLConn c)]"
  by (simp add: Conn_Close_invoke invoke_fst_snd)

lemma wrappedQueryer_QueryRow_eq:
  "wrappedQueryer_QueryRow L qr ctx query args s =
     (Row_sql (fst (sql_QueryRowContext L (wrappedQueryer_SQLQueryer qr) ctx query args (world s))),
      \<lparr>world = snd (sql_QueryRowContext L (wrappedQueryer_SQLQueryer qr) ctx query args (world s)),
        calls = calls s @ [QueryRowContext_call (wrappedQueryer_SQLQueryer qr) ctx query args]\<rparr>)"
  by (cases qr) (simp add: invoke_fst_snd)

lemma wrappedStmt_QueryRow_eq:
  "wrappedStmt_QueryRow L st ctx args s =
     (Row_sql (fst (sql_Stmt_QueryRowContext L (wrappedStmt_Unwrap st) ctx args (world s))),
      \<lparr>world = snd (sql_Stmt_QueryRowContext L (wrappedStmt_Unwrap st) ctx args (world s)),
        calls = calls s @ [Stmt_QueryRowContext_call (wrappedStmt_Unwrap st) ctx args]\<rparr>)"
  by (cases st) (simp add: invoke_fst_snd)

lemma Conn_QueryRow_eq:
  "Conn_QueryRow L c ctx query args s =
     wrappedQueryer_QueryRow L (Conn_Queryer c) ctx query args s"
  by (induction c rule: Conn_Queryer.induct) simp_all

lemma Tx_QueryRow_eq:
  "Tx_QueryRow L tx ctx query args s =
     wrappedQueryer_QueryRow L (Tx_Queryer tx) ctx query args s"
  by (induction tx rule: Tx_Queryer.induct) simp_all

lemma wrappedDB_QueryRow_eq:
  "wrappedDB_QueryRow L db ctx query args s =
     wrappedQueryer_QueryRow L (Conn_Queryer (Conn_wrappedDB db)) ctx query args s"
  by (cases db) simp

lemmas script_defs =
  scripted_def script_lib_def script_open_def script_exec_def script_pointer_def
  script_outcome_def invoke_def WrapDB_def WrapConn_def WrapQueryer_def WrapStmt_def

subsection \<open>Transactions and the connection they run on\<close>

text \<open>
  Claim C1, as amended. The specification says that a transaction started with
  \<^verbatim>\<open>BeginTx\<close> of a leased connection closes that connection in \<^verbatim>\<open>Commit\<close> and
  \<^verbatim>\<open>Rollback\<close>. In the code \<^verbatim>\<open>BeginTx\<close> of a \<^verbatim>\<open>wrappedConn\<close> returns a plain \<^verbatim>\<open>wrappedTx\<close>:
  when the library's \<^verbatim>\<open>BeginTx\<close> succeeds with the transaction \<open>t\<close>, the result is the
  \<^verbatim>\<open>wrappedTx\<close> of \<open>t\<close>, and \<^verbatim>\<open>Commit\<close> and \<^verbatim>\<open>Rollback\<close> of that transaction add exactly one
  call to the log, the library's commit or rollback of \<open>t\<close>, and no \<^verbatim>\<open>Close\<close>. Only the
  connection-owning variant \<^verbatim>\<open>connTx\<close>, which \<^verbatim>\<open>BeginTx\<close> does not build, closes its
  connection: its \<^verbatim>\<open>Commit\<close> and \<^verbatim>\<open>Rollback\<close> run those of the embedded transaction and
  then, whatever they returned, call \<^verbatim>\<open>Close\<close> of the owned connection.
\<close>

theorem Conn_BeginTx_plain_Tx_connTx_closes:
  assumes "sql_BeginTx L c ctx opts (world s) = ((t, None), w1)"
  shows "Conn_BeginTx L (Conn_wrappedConn (wrappedConn c q)) ctx opts s =
           ((Some (Tx_wrappedTx (wrappedTx t (WrapQueryer (SQLQueryer_Tx t)))), None),
            \<lparr>world = w1, calls = calls s @ [BeginTx_call c ctx opts]\<rparr>)
       \<and> calls (snd (Tx_Commit L (Tx_wrappedTx (wrappedTx t (WrapQueryer (SQLQueryer_Tx t)))) s'))
           = calls s' @ [Tx_Commit_call t]
       \<and> calls (snd (Tx_Rollback L (Tx_wrappedTx (wrappedTx t (WrapQueryer (SQLQueryer_Tx t)))) s'))
           = calls s' @ [Tx_Rollback_call t]
       \<and> calls (snd (Tx_Commit L (Tx_connTx cn tx) s'))
           = calls (snd (Tx_Commit L tx s')) @ [Close_call (Conn_SQLConn cn)]
       \<and> calls (snd (Tx_Rollback L (Tx_connTx cn tx) s'))
           = calls (snd (Tx_Rollback L tx s')) @ [Close_call (Conn_SQLConn cn)]"
  using assms by (simp add: invoke_fst_snd calls_Conn_Close split_beta)

text \<open>
  The amended statement at a concrete input: on the connection at address 7 the library
  begins the transaction at address 1.
\<close>

theorem Conn_BeginTx_plain_Tx_connTx_closes_witness:
  "sql_BeginTx script_lib (SQLConn_Conn (sql_Conn 7)) (Ctx 0) None
     (world (scripted [None, Some (Err ''commit failed'')]))
     = ((sql_Tx 1, None), \<lparr>script = [Some (Err ''commit failed'')], fresh = 2\<rparr>)
   \<and> Conn_BeginTx script_lib
        (Conn_wrappedConn
          (wrappedConn (SQLConn_Conn (sql_Conn 7)) (WrapQueryer (SQLQueryer_Conn (sql_Conn 7)))))
        (Ctx 0) None (scripted [None, Some (Err ''commit failed'')])
     = ((Some (Tx_wrappedTx (wrappedTx (sql_Tx 1) (WrapQueryer (SQLQueryer_Tx (sql_Tx 1))))), None),
        \<lparr>world = \<lparr>script = [Some (Err ''commit failed'')], fresh = 2\<rparr>,
          calls = [BeginTx_call (SQLConn_Conn (sql_Conn 7)) (Ctx 0) None]\<rparr>)"
proof -
  have h: "sql_BeginTx script_lib (SQLConn_Conn (sql_Conn 7)) (Ctx 0) None
             (world (scripted [None, Some (Err ''commit failed'')]))
           = ((sql_Tx 1, None), \<lparr>script = [Some (Err ''commit failed'')], fresh = 2\<rparr>)"
    by (simp add: script_defs)
  from Conn_BeginTx_plain_Tx_connTx_closes [OF h] h show ?thesis
    by (simp add: scripted_def)
qed

text \<open>
  Claim C1 as the specification states it fails. A transaction is begun on the
  connection at address 7 with \<^verbatim>\<open>BeginTx\<close> of its wrapper and committed: the log holds
  the library's \<^verbatim>\<open>BeginTx\<close> and \<^verbatim>\<open>Commit\<close> and no \<^verbatim>\<open>Close\<close> of the connection.
\<close>

theorem leased_Conn_Tx_Commit_counterexample:
  "fst (Conn_BeginTx script_lib
         (Conn_wrappedConn
           (wrappedConn (SQLConn_Conn (sql_Conn 7)) (WrapQueryer (SQLQueryer_Conn (sql_Conn 7)))))
         (Ctx 0) None (scripted []))
     = (Some (Tx_wrappedTx (wrappedTx (sql_Tx 1) (WrapQueryer (SQLQueryer_Tx (sql_Tx 1))))), None)
   \<and> calls (snd (Tx_Commit script_lib
        (Tx_wrappedTx (wrappedTx (sql_Tx 1) (WrapQueryer (SQLQueryer_Tx (sql_Tx 1)))))
        (snd (Conn_BeginTx script_lib
          (Conn_wrappedConn
            (wrappedConn (SQLConn_Conn (sql_Conn 7)) (WrapQueryer (SQLQueryer_Conn (sql_Conn 7)))))
          (Ctx 0) None (scripted [])))))
     = [BeginTx_call (SQLConn_Conn (sql_Conn 7)) (Ctx 0) None, Tx_Commit_call (sql_Tx 1)]
   \<and> Close_call (SQLConn_Conn (sql_Conn 7)) \<notin> set (calls (snd (Tx_Commit script_lib
        (Tx_wrappedTx (wrappedTx (sql_Tx 1) (WrapQueryer (SQLQueryer_Tx (sql_Tx 1)))))
        (snd (Conn_BeginTx script_lib
          (Conn_wrappedConn
            (wrappedConn (SQLConn_Conn (sql_Conn 7)) (WrapQueryer (SQLQueryer_Conn (sql_Conn 7)))))
          (Ctx 0) None (scripted []))))))"
  by (simp add: script_defs)

text \<open>
  Claim C5, as amended. The specification says that a failure of the \<^verbatim>\<open>Close\<close> which
  \<^verbatim>\<open>Commit\<close> or \<^verbatim>\<open>Rollback\<close> of a connection-owning transaction runs is surfaced to the
  caller. In the code the \<^verbatim>\<open>Close\<close> is deferred and what it returns is dropped:
  \<^verbatim>\<open>Commit\<close> of a \<^verbatim>\<open>connTx\<close> returns exactly what \<^verbatim>\<open>Commit\<close> of the embedded transaction
  returns, failure or not, and leaves the state that \<^verbatim>\<open>Close\<close> of the owned connection
  leaves when run after it; likewise \<^verbatim>\<open>Rollback\<close>. So the connection is released whatever
  the outcome, a failure to release never masks the commit or rollback failure, and it
  is not reported either.
\<close>

theorem connTx_returns_embedded_result_after_Close:
  "fst (Tx_Commit L (Tx_connTx c tx) s) = fst (Tx_Commit L tx s)
 \<and> snd (Tx_Commit L (Tx_connTx c tx) s) = snd (Conn_Close L c (snd (Tx_Commit L tx s)))
 \<and> fst (Tx_Rollback L (Tx_connTx c tx) s) = fst (Tx_Rollback L tx s)
 \<and> snd (Tx_Rollback L (Tx_connTx c tx) s) = snd (Conn_Close L c (snd (Tx_Rollback L tx s)))"
  by (simp add: split_beta)

text \<open>
  Claim C5 as the specification states it fails. The commit succeeds and the \<^verbatim>\<open>Close\<close>
  that follows it fails with an error; \<^verbatim>\<open>Commit\<close> of the connection-owning transaction
  returns nil.
\<close>

theorem connTx_Close_failure_counterexample:
  "fst (Conn_Close script_lib (WrapConn (SQLConn_Conn (sql_Conn 7)))
         (snd (Tx_Commit script_lib
                 (Tx_wrappedTx (wrappedTx (sql_Tx 8) (WrapQueryer (SQLQueryer_Tx (sql_Tx 8)))))
                 (scripted [None, Some (Err ''close failed'')]))))
     = Some (Err ''close failed'')
   \<and> fst (Tx_Commit script_lib
         (Tx_connTx (WrapConn (SQLConn_Conn (sql_Conn 7)))
            (Tx_wrappedTx (wrappedTx (sql_Tx 8) (WrapQueryer (SQLQueryer_Tx (sql_Tx 8))))))
         (scripted [None, Some (Err ''close failed'')]))
     = None"
  by (simp add: script_defs)

subsection \<open>Ping of a database handle\<close>

text \<open>
  Claim C6. \<^verbatim>\<open>Ping\<close> of a wrapped database handle asks the library for a dedicated
  connection. If the lease fails, the lease error is returned and the lease is the only
  call made: no ping. Otherwise the leased connection is pinged and then closed, in this
  order and whatever the ping returned, and the result of the ping is returned. In both
  cases \<^verbatim>\<open>Ping\<close> returns; it never calls a method of a nil connection.
\<close>

theorem wrappedDB_Ping_lease_ping_close:
  assumes "sql_DB_Conn L db ctx (world s) = ((c, err), w1)"
  shows "(err \<noteq> None \<longrightarrow>
            wrappedDB_Ping L (wrappedDB db q) ctx s =
              (Return err, \<lparr>world = w1, calls = calls s @ [DB_Conn_call db ctx]\<rparr>))
       \<and> (err = None \<longrightarrow>
            wrappedDB_Ping L (wrappedDB db q) ctx s =
              (Return (fst (sql_PingContext L (SQLConn_Conn c) ctx w1)),
               \<lparr>world = snd (sql_Close L (SQLConn_Conn c)
                               (snd (sql_PingContext L (SQLConn_Conn c) ctx w1))),
                 calls = calls s @ [DB_Conn_call db ctx,
                                    PingContext_call (SQLConn_Conn c) ctx,
                                    Close_call (SQLConn_Conn c)]\<rparr>))"
  using assms by (simp add: invoke_fst_snd WrapConn_def)

text \<open>
  Two runs: the lease succeeds and the ping fails (the connection is still closed, the
  ping's error is returned), and the lease fails (its error is returned, nothing else is
  called).
\<close>

theorem wrappedDB_Ping_lease_ping_close_witness:
  "sql_DB_Conn script_lib (sql_DB 1) (Ctx 0) (world (scripted [None, Some (Err ''server down'')]))
     = ((sql_Conn 1, None), \<lparr>script = [Some (Err ''server down'')], fresh = 2\<rparr>)
   \<and> wrappedDB_Ping script_lib (WrapDB (sql_DB 1)) (Ctx 0)
        (scripted [None, Some (Err ''server down'')])
     = (Return (Some (Err ''server down'')),
        \<lparr>world = \<lparr>script = [], fresh = 2\<rparr>,
          calls = [DB_Conn_call (sql_DB 1) (Ctx 0),
                   PingContext_call (SQLConn_Conn (sql_Conn 1)) (Ctx 0),
                   Close_call (SQLConn_Conn (sql_Conn 1))]\<rparr>)
   \<and> sql_DB_Conn script_lib (sql_DB 1) (Ctx 0) (world (scripted [Some (Err ''pool closed'')]))
     = ((sql_Conn 0, Some (Err ''pool closed'')), \<lparr>script = [], fresh = 1\<rparr>)
   \<and> wrappedDB_Ping script_lib (WrapDB (sql_DB 1)) (Ctx 0) (scripted [Some (Err ''pool closed'')])
     = (Return (Some (Err ''pool closed'')),
        \<lparr>world = \<lparr>script = [], fresh = 1\<rparr>, calls = [DB_Conn_call (sql_DB 1) (Ctx 0)]\<rparr>)"
proof -
  have h1: "sql_DB_Conn script_lib (sql_DB 1) (Ctx 0)
              (world (scripted [None, Some (Err ''server down'')]))
            = ((sql_Conn 1, None), \<lparr>script = [Some (Err ''server down'')], fresh = 2\<rparr>)"
    by (simp add: script_defs)
  have h2: "sql_DB_Conn script_lib (sql_DB 1) (Ctx 0) (world (scripted [Some (Err ''pool closed'')]))
            = ((sql_Conn 0, Some (Err ''pool closed'')), \<lparr>script = [], fresh = 1\<rparr>)"
    by (simp add: script_defs)
  have c1: "fst (sql_PingContext script_lib (SQLConn_Conn (sql_Conn 1)) (Ctx 0)
                   \<lparr>script = [Some (Err ''server down'')], fresh = 2\<rparr>) = Some (Err ''server down'')"
    by (simp add: script_defs)
  have c2: "snd (sql_Close script_lib (SQLConn_Conn (sql_Conn 1))
                   (snd (sql_PingContext script_lib (SQLConn_Conn (sql_Conn 1)) (Ctx 0)
                           \<lparr>script = [Some (Err ''server down'')], fresh = 2\<rparr>)))
            = \<lparr>script = [], fresh = 2\<rparr>"
    by (simp add: script_defs)
  from wrappedDB_Ping_lease_ping_close [OF h1, of "WrapQueryer (SQLQueryer_DB (sql_DB 1))"]
       wrappedDB_Ping_lease_ping_close [OF h2, of "WrapQueryer (SQLQueryer_DB (sql_DB 1))"]
       h1 h2 c1 c2
  show ?thesis
    by (simp add: WrapDB_def scripted_def)
qed

subsection \<open>Rebinding a statement to a transaction\<close>

text \<open>
  Claim C7. \<^verbatim>\<open>Stmt\<close> of a transaction, plain or connection-owning, always returns a
  statement wrapper and has no error result. It makes exactly one call to the library:
  the rebind, on the \<^verbatim>\<open>*sql.Tx\<close> of the transaction, of the native statement that
  \<^verbatim>\<open>Unwrap\<close> gives. What it returns wraps the statement the library returned, so a
  failed rebind shows only in the later operations of that statement, which are the
  library's.
\<close>

theorem Tx_Stmt_rebinds:
  "Tx_Stmt L tx ctx stmt s =
     (WrapStmt (fst (sql_Tx_StmtContext L (Tx_sql_Tx tx) ctx (wrappedStmt_Unwrap stmt) (world s))),
      \<lparr>world = snd (sql_Tx_StmtContext L (Tx_sql_Tx tx) ctx (wrappedStmt_Unwrap stmt) (world s)),
        calls = calls s @ [Tx_StmtContext_call (Tx_sql_Tx tx) ctx (wrappedStmt_Unwrap stmt)]\<rparr>)"
  by (induction tx rule: Tx_sql_Tx.induct) (simp_all add: invoke_fst_snd)

subsection \<open>Exec\<close>

text \<open>
  Claim C4. \<^verbatim>\<open>Exec\<close> of a wrapped queryer and of a wrapped statement makes one call to
  the library's execute. If that returns a nil error, \<^verbatim>\<open>Exec\<close> returns the library's
  result itself and a nil error; if it returns an error, \<^verbatim>\<open>Exec\<close> returns a nil result
  and that same error.
\<close>

theorem Exec_result_or_error:
  "(sql_ExecContext L q ctx query args (world s) = ((r, None), w') \<longrightarrow>
      wrappedQueryer_Exec L (wrappedQueryer q) ctx query args s =
        ((r, None), \<lparr>world = w', calls = calls s @ [ExecContext_call q ctx query args]\<rparr>))
 \<and> (sql_ExecContext L q ctx query args (world s) = ((r, Some e), w') \<longrightarrow>
      wrappedQueryer_Exec L (wrappedQueryer q) ctx query args s =
        ((None, Some e), \<lparr>world = w', calls = calls s @ [ExecContext_call q ctx query args]\<rparr>))
 \<and> (sql_Stmt_ExecContext L st ctx args (world s) = ((r, None), w') \<longrightarrow>
      wrappedStmt_Exec L (wrappedStmt st) ctx args s =
        ((r, None), \<lparr>world = w', calls = calls s @ [Stmt_ExecContext_call st ctx args]\<rparr>))
 \<and> (sql_Stmt_ExecContext L st ctx args (world s) = ((r, Some e), w') \<longrightarrow>
      wrappedStmt_Exec L (wrappedStmt st) ctx args s =
        ((None, Some e), \<lparr>world = w', calls = calls s @ [Stmt_ExecContext_call st ctx args]\<rparr>))"
  by (simp add: invoke_def)

text \<open>A succeeding and a failing execution, on a queryer and on a statement.\<close>

theorem Exec_result_or_error_witness:
  "sql_ExecContext script_lib (SQLQueryer_DB (sql_DB 1)) (Ctx 0) ''DELETE FROM t'' []
     (world (scripted [])) = ((Some (sql_Result 1), None), \<lparr>script = [], fresh = 2\<rparr>)
   \<and> wrappedQueryer_Exec script_lib (wrappedQueryer (SQLQueryer_DB (sql_DB 1))) (Ctx 0)
        ''DELETE FROM t'' [] (scripted [])
     = ((Some (sql_Result 1), None),
        \<lparr>world = \<lparr>script = [], fresh = 2\<rparr>,
          calls = [ExecContext_call (SQLQueryer_DB (sql_DB 1)) (Ctx 0) ''DELETE FROM t'' []]\<rparr>)
   \<and> sql_Stmt_ExecContext script_lib (sql_Stmt 3) (Ctx 0) [Value_int 5]
        (world (scripted [Some (Err ''constraint violation'')]))
     = ((None, Some (Err ''constraint violation'')), \<lparr>script = [], fresh = 1\<rparr>)
   \<and> wrappedStmt_Exec script_lib (wrappedStmt (sql_Stmt 3)) (Ctx 0) [Value_int 5]
        (scripted [Some (Err ''constraint violation'')])
     = ((None, Some (Err ''constraint violation'')),
        \<lparr>world = \<lparr>script = [], fresh = 1\<rparr>,
          calls = [Stmt_ExecContext_call (sql_Stmt 3) (Ctx 0) [Value_int 5]]\<rparr>)"
proof -
  have h1: "sql_ExecContext script_lib (SQLQueryer_DB (sql_DB 1)) (Ctx 0) ''DELETE FROM t'' []
              (world (scripted [])) = ((Some (sql_Result 1), None), \<lparr>script = [], fresh = 2\<rparr>)"
    by (simp add: script_defs)
  have h2: "sql_Stmt_ExecContext script_lib (sql_Stmt 3) (Ctx 0) [Value_int 5]
              (world (scripted [Some (Err ''constraint violation'')]))
            = ((None, Some (Err ''constraint violation'')), \<lparr>script = [], fresh = 1\<rparr>)"
    by (simp add: script_defs)
  from Exec_result_or_error [where L = script_lib and q = "SQLQueryer_DB (sql_DB 1)"
         and ctx = "Ctx 0" and query = "''DELETE FROM t''" and args = "[]"
         and s = "scripted []" and r = "Some (sql_Result 1)"
         and w' = "\<lparr>script = [], fresh = 2\<rparr>"]
       Exec_result_or_error [where L = script_lib and st = "sql_Stmt 3"
         and ctx = "Ctx 0" and args = "[Value_int 5]"
         and s = "scripted [Some (Err ''constraint violation'')]" and r = None
         and e = "Err ''constraint violation''" and w' = "\<lparr>script = [], fresh = 1\<rparr>"]
       h1 h2
  show ?thesis
    by (simp add: scripted_def)
qed

subsection \<open>QueryRow, Row and Rows\<close>

text \<open>
  Claim C2. \<^verbatim>\<open>QueryRow\<close> of a database handle, of a connection, of a transaction and of
  a statement has no error result and always returns a row: it makes one call to the
  library's \<^verbatim>\<open>QueryRowContext\<close> and returns the row the library returned. A failure of
  the query, the absence of a row included, is whatever the library's \<^verbatim>\<open>Scan\<close> of that
  row reports: \<^verbatim>\<open>Scan\<close> of the returned row is that call.
\<close>

theorem QueryRow_returns_Row:
  "wrappedDB_QueryRow L db ctx query args s =
     (Row_sql (fst (sql_QueryRowContext L
         (wrappedQueryer_SQLQueryer (Conn_Queryer (Conn_wrappedDB db))) ctx query args (world s))),
      \<lparr>world = snd (sql_QueryRowContext L
         (wrappedQueryer_SQLQueryer (Conn_Queryer (Conn_wrappedDB db))) ctx query args (world s)),
        calls = calls s @ [QueryRowContext_call
         (wrappedQueryer_SQLQueryer (Conn_Queryer (Conn_wrappedDB db))) ctx query args]\<rparr>)
 \<and> Conn_QueryRow L c ctx query args s =
     (Row_sql (fst (sql_QueryRowContext L
         (wrappedQueryer_SQLQueryer (Conn_Queryer c)) ctx query args (world s))),
      \<lparr>world = snd (sql_QueryRowContext L
         (wrappedQueryer_SQLQueryer (Conn_Queryer c)) ctx query args (world s)),
        calls = calls s @ [QueryRowContext_call
         (wrappedQueryer_SQLQueryer (Conn_Queryer c)) ctx query args]\<rparr>)
 \<and> Tx_QueryRow L tx ctx query args s =
     (Row_sql (fst (sql_QueryRowContext L
         (wrappedQueryer_SQLQueryer (Tx_Queryer tx)) ctx query args (world s))),
      \<lparr>world = snd (sql_QueryRowContext L
         (wrappedQueryer_SQLQueryer (Tx_Queryer tx)) ctx query args (world s)),
        calls = calls s @ [QueryRowContext_call
         (wrappedQueryer_SQLQueryer (Tx_Queryer tx)) ctx query args]\<rparr>)
 \<and> wrappedStmt_QueryRow L st ctx args s =
     (Row_sql (fst (sql_Stmt_QueryRowContext L (wrappedStmt_Unwrap st) ctx args (world s))),
      \<lparr>world = snd (sql_Stmt_QueryRowContext L (wrappedStmt_Unwrap st) ctx args (world s)),
        calls = calls s @ [Stmt_QueryRowContext_call (wrappedStmt_Unwrap st) ctx args]\<rparr>)
 \<and> Row_Scan L (Row_sql r) dest s' =
     (fst (sql_Row_Scan L r dest (world s')),
      \<lparr>world = snd (sql_Row_Scan L r dest (world s')),
        calls = calls s' @ [Row_Scan_call r dest]\<rparr>)"
  by (simp add: wrappedDB_QueryRow_eq Conn_QueryRow_eq Tx_QueryRow_eq wrappedStmt_QueryRow_eq
        invoke_fst_snd flip: wrappedQueryer_QueryRow_eq)

text \<open>
  Claim C10. Every rows value that \<^verbatim>\<open>Query\<close> of a wrapped queryer or statement returns
  is the library's \<^verbatim>\<open>*sql.Rows\<close> itself. \<^verbatim>\<open>Query\<close> makes one call to the library's query:
  on a nil error it returns the rows the library returned, as they are, and a nil error;
  on an error it returns nil rows and that error. So whenever \<^verbatim>\<open>Query\<close> returns rows,
  they are the rows of that one call, which ended without error. \<^verbatim>\<open>Query\<close> of a database
  handle is \<^verbatim>\<open>Query\<close> of its queryer. The row that \<^verbatim>\<open>QueryRow\<close> returns is the library's
  \<^verbatim>\<open>*sql.Row\<close> itself. No operation of the package that returns a row (\<^verbatim>\<open>QueryRow\<close> of a
  queryer, a database handle, a connection, a transaction or a statement) returns an
  \<^verbatim>\<open>errRow\<close>.
\<close>

theorem Rows_and_Row_are_native:
  "(sql_QueryContext L q ctx query args (world s) = ((rows, None), w') \<longrightarrow>
      wrappedQueryer_Query L (wrappedQueryer q) ctx query args s =
        ((Some (Rows_sql rows), None),
         \<lparr>world = w', calls = calls s @ [QueryContext_call q ctx query args]\<rparr>))
 \<and> (sql_QueryContext L q ctx query args (world s) = ((rows, Some e'), w') \<longrightarrow>
      wrappedQueryer_Query L (wrappedQueryer q) ctx query args s =
        ((None, Some e'),
         \<lparr>world = w', calls = calls s @ [QueryContext_call q ctx query args]\<rparr>))
 \<and> (fst (fst (wrappedQueryer_Query L (wrappedQueryer q) ctx query args s)) = Some R \<longrightarrow>
      R = Rows_sql (fst (fst (sql_QueryContext L q ctx query args (world s))))
      \<and> snd (fst (sql_QueryContext L q ctx query args (world s))) = None
      \<and> snd (fst (wrappedQueryer_Query L (wrappedQueryer q) ctx query args s)) = None)
 \<and> (sql_Stmt_QueryContext L st ctx args (world s) = ((rows, None), w') \<longrightarrow>
      wrappedStmt_Query L (wrappedStmt st) ctx args s =
        ((Some (Rows_sql rows), None),
         \<lparr>world = w', calls = calls s @ [Stmt_QueryContext_call st ctx args]\<rparr>))
 \<and> (sql_Stmt_QueryContext L st ctx args (world s) = ((rows, Some e'), w') \<longrightarrow>
      wrappedStmt_Query L (wrappedStmt st) ctx args s =
        ((None, Some e'),
         \<lparr>world = w', calls = calls s @ [Stmt_QueryContext_call st ctx args]\<rparr>))
 \<and> (fst (fst (wrappedStmt_Query L (wrappedStmt st) ctx args s)) = Some R \<longrightarrow>
      R = Rows_sql (fst (fst (sql_Stmt_QueryContext L st ctx args (world s))))
      \<and> snd (fst (sql_Stmt_QueryContext L st ctx args (world s))) = None
      \<and> snd (fst (wrappedStmt_Query L (wrappedStmt st) ctx args s)) = None)
 \<and> wrappedDB_Query L (wrappedDB h qr) ctx query args s =
      wrappedQueryer_Query L qr ctx query args s
 \<and> fst (wrappedQueryer_QueryRow L (wrappedQueryer q) ctx query args s) =
      Row_sql (fst (sql_QueryRowContext L q ctx query args (world s)))
 \<and> fst (wrappedStmt_QueryRow L (wrappedStmt st) ctx args s) =
      Row_sql (fst (sql_Stmt_QueryRowContext L st ctx args (world s)))
 \<and> fst (wrappedQueryer_QueryRow L qr ctx query args s) \<noteq> Row_errRow e
 \<and> fst (wrappedDB_QueryRow L db ctx query args s) \<noteq> Row_errRow e
 \<and> fst (Conn_QueryRow L c ctx query args s) \<noteq> Row_errRow e
 \<and> fst (Tx_QueryRow L tx ctx query args s) \<noteq> Row_errRow e
 \<and> fst (wrappedStmt_QueryRow L stmt ctx args s) \<noteq> Row_errRow e"
proof -
  have queryer:
    "wrappedQueryer_Query L (wrappedQueryer q) ctx query args s =
       ((if snd (fst (sql_QueryContext L q ctx query args (world s))) \<noteq> None then None
         else Some (Rows_sql (fst (fst (sql_QueryContext L q ctx query args (world s))))),
         snd (fst (sql_QueryContext L q ctx query args (world s)))),
        \<lparr>world = snd (sql_QueryContext L q ctx query args (world s)),
          calls = calls s @ [QueryContext_call q ctx query args]\<rparr>)"
    by (simp add: invoke_fst_snd split_beta)
  have stmt:
    "wrappedStmt_Query L (wrappedStmt st) ctx args s =
       ((if snd (fst (sql_Stmt_QueryContext L st ctx args (world s))) \<noteq> None then None
         else Some (Rows_sql (fst (fst (sql_Stmt_QueryContext L st ctx args (world s))))),
         snd (fst (sql_Stmt_QueryContext L st ctx args (world s)))),
        \<lparr>world = snd (sql_Stmt_QueryContext L st ctx args (world s)),
          calls = calls s @ [Stmt_QueryContext_call st ctx args]\<rparr>)"
    by (simp add: invoke_fst_snd split_beta)
  have rows_queryer:
    "(sql_QueryContext L q ctx query args (world s) = ((rows, None), w') \<longrightarrow>
        wrappedQueryer_Query L (wrappedQueryer q) ctx query args s =
          ((Some (Rows_sql rows), None),
           \<lparr>world = w', calls = calls s @ [QueryContext_call q ctx query args]\<rparr>))
   \<and> (sql_QueryContext L q ctx query args (world s) = ((rows, Some e'), w') \<longrightarrow>
        wrappedQueryer_Query L (wrappedQueryer q) ctx query args s =
          ((None, Some e'),
           \<lparr>world = w', calls = calls s @ [QueryContext_call q ctx query args]\<rparr>))
   \<and> (fst (fst (wrappedQueryer_Query L (wrappedQueryer q) ctx query args s)) = Some R \<longrightarrow>
        R = Rows_sql (fst (fst (sql_QueryContext L q ctx query args (world s))))
        \<and> snd (fst (sql_QueryContext L q ctx query args (world s))) = None
        \<and> snd (fst (wrappedQueryer_Query L (wrappedQueryer q) ctx query args s)) = None)"
    unfolding queryer by (auto split: if_splits)
  have rows_stmt:
    "(sql_Stmt_QueryContext L st ctx args (world s) = ((rows, None), w') \<longrightarrow>
        wrappedStmt_Query L (wrappedStmt st) ctx args s =
          ((Some (Rows_sql rows), None),
           \<lparr>world = w', calls = calls s @ [Stmt_QueryContext_call st ctx args]\<rparr>))
   \<and> (sql_Stmt_QueryContext L st ctx args (world s) = ((rows, Some e'), w') \<longrightarrow>
        wrappedStmt_Query L (wrappedStmt st) ctx args s =
          ((None, Some e'),
           \<lparr>world = w', calls = calls s @ [Stmt_QueryContext_call st ctx args]\<rparr>))
   \<and> (fst (fst (wrappedStmt_Query L (wrappedStmt st) ctx args s)) = Some R \<longrightarrow>
        R = Rows_sql (fst (fst (sql_Stmt_QueryContext L st ctx args (world s))))
        \<and> snd (fst (sql_Stmt_QueryContext L st ctx args (world s))) = None
        \<and> snd (fst (wrappedStmt_Query L (wrappedStmt st) ctx args s)) = None)"
    unfolding stmt by (auto split: if_splits)
  have db: "wrappedDB_Query L (wrappedDB h qr) ctx query args s =
              wrappedQueryer_Query L qr ctx query args s"
    by simp
  have row:
    "fst (wrappedQueryer_QueryRow L (wrappedQueryer q) ctx query args s) =
       Row_sql (fst (sql_QueryRowContext L q ctx query args (world s)))
   \<and> fst (wrappedStmt_QueryRow L (wrappedStmt st) ctx args s) =
       Row_sql (fst (sql_Stmt_QueryRowContext L st ctx args (world s)))
   \<and> fst (wrappedQueryer_QueryRow L qr ctx query args s) \<noteq> Row_errRow e
   \<and> fst (wrappedDB_QueryRow L db ctx query args s) \<noteq> Row_errRow e
   \<and> fst (Conn_QueryRow L c ctx query args s) \<noteq> Row_errRow e
   \<and> fst (Tx_QueryRow L tx ctx query args s) \<noteq> Row_errRow e
   \<and> fst (wrappedStmt_QueryRow L stmt ctx args s) \<noteq> Row_errRow e"
    by (simp add: wrappedDB_QueryRow_eq Conn_QueryRow_eq Tx_QueryRow_eq wrappedStmt_QueryRow_eq
          wrappedQueryer_QueryRow_eq)
  from rows_queryer rows_stmt db row show ?thesis
    by blast
qed

text \<open>
  A successful and a failing query, on a connection and on a statement: the rows returned
  are the library's, and on failure no rows are returned.
\<close>

theorem Rows_and_Row_are_native_witness:
  "sql_QueryContext script_lib (SQLQueryer_Conn (sql_Conn 4)) (Ctx 0) ''SELECT 1'' []
     (world (scripted [])) = ((sql_Rows 1, None), \<lparr>script = [], fresh = 2\<rparr>)
   \<and> wrappedQueryer_Query script_lib (wrappedQueryer (SQLQueryer_Conn (sql_Conn 4))) (Ctx 0)
        ''SELECT 1'' [] (scripted [])
     = ((Some (Rows_sql (sql_Rows 1)), None),
        \<lparr>world = \<lparr>script = [], fresh = 2\<rparr>,
          calls = [QueryContext_call (SQLQueryer_Conn (sql_Conn 4)) (Ctx 0) ''SELECT 1'' []]\<rparr>)
   \<and> sql_Stmt_QueryContext script_lib (sql_Stmt 3) (Ctx 0) [] (world (scripted []))
     = ((sql_Rows 1, None), \<lparr>script = [], fresh = 2\<rparr>)
   \<and> wrappedStmt_Query script_lib (wrappedStmt (sql_Stmt 3)) (Ctx 0) [] (scripted [])
     = ((Some (Rows_sql (sql_Rows 1)), None),
        \<lparr>world = \<lparr>script = [], fresh = 2\<rparr>,
          calls = [Stmt_QueryContext_call (sql_Stmt 3) (Ctx 0) []]\<rparr>)
   \<and> sql_QueryContext script_lib (SQLQueryer_Conn (sql_Conn 4)) (Ctx 0) ''SELECT x'' []
        (world (scripted [Some (Err ''no such column'')]))
     = ((sql_Rows 0, Some (Err ''no such column'')), \<lparr>script = [], fresh = 1\<rparr>)
   \<and> wrappedQueryer_Query script_lib (wrappedQueryer (SQLQueryer_Conn (sql_Conn 4))) (Ctx 0)
        ''SELECT x'' [] (scripted [Some (Err ''no such column'')])
     = ((None, Some (Err ''no such column'')),
        \<lparr>world = \<lparr>script = [], fresh = 1\<rparr>,
          calls = [QueryContext_call (SQLQueryer_Conn (sql_Conn 4)) (Ctx 0) ''SELECT x'' []]\<rparr>)
   \<and> sql_Stmt_QueryContext script_lib (sql_Stmt 3) (Ctx 0) []
        (world (scripted [Some (Err ''no such column'')]))
     = ((sql_Rows 0, Some (Err ''no such column'')), \<lparr>script = [], fresh = 1\<rparr>)
   \<and> wrappedStmt_Query script_lib (wrappedStmt (sql_Stmt 3)) (Ctx 0) []
        (scripted [Some (Err ''no such column'')])
     = ((None, Some (Err ''no such column'')),
        \<lparr>world = \<lparr>script = [], fresh = 1\<rparr>,
          calls = [Stmt_QueryContext_call (sql_Stmt 3) (Ctx 0) []]\<rparr>)"
proof -
  have h1: "sql_QueryContext script_lib (SQLQueryer_Conn (sql_Conn 4)) (Ctx 0) ''SELECT 1'' []
              (world (scripted [])) = ((sql_Rows 1, None), \<lparr>script = [], fresh = 2\<rparr>)"
    by (simp add: script_defs)
  have h2: "sql_Stmt_QueryContext script_lib (sql_Stmt 3) (Ctx 0) [] (world (scripted []))
            = ((sql_Rows 1, None), \<lparr>script = [], fresh = 2\<rparr>)"
    by (simp add: script_defs)
  have h3: "sql_QueryContext script_lib (SQLQueryer_Conn (sql_Conn 4)) (Ctx 0) ''SELECT x'' []
              (world (scripted [Some (Err ''no such column'')]))
            = ((sql_Rows 0, Some (Err ''no such column'')), \<lparr>script = [], fresh = 1\<rparr>)"
    by (simp add: script_defs)
  have h4: "sql_Stmt_QueryContext script_lib (sql_Stmt 3) (Ctx 0) []
              (world (scripted [Some (Err ''no such column'')]))
            = ((sql_Rows 0, Some (Err ''no such column'')), \<lparr>script = [], fresh = 1\<rparr>)"
    by (simp add: script_defs)
  from Rows_and_Row_are_native [where L = script_lib and q = "SQLQueryer_Conn (sql_Conn 4)"
         and ctx = "Ctx 0" and query = "''SELECT 1''" and args = "[]" and s = "scripted []"
         and rows = "sql_Rows 1" and w' = "\<lparr>script = [], fresh = 2\<rparr>" and st = "sql_Stmt 3"
         and R = "Rows_sql (sql_Rows 1)"]
       Rows_and_Row_are_native [where L = script_lib and q = "SQLQueryer_Conn (sql_Conn 4)"
         and ctx = "Ctx 0" and query = "''SELECT x''" and args = "[]"
         and s = "scripted [Some (Err ''no such column'')]"
         and rows = "sql_Rows 0" and e' = "Err ''no such column''"
         and w' = "\<lparr>script = [], fresh = 1\<rparr>" and st = "sql_Stmt 3"]
       h1 h2 h3 h4
  show ?thesis
    by (simp add: scripted_def)
qed

text \<open>
  Claim C8. \<^verbatim>\<open>Scan\<close> of a row that holds a captured error returns that error, for every
  list of destinations, the empty one included. It calls nothing and leaves the state,
  the memory of the destinations with it, as it was.
\<close>

theorem errRow_Scan_returns_captured_error:
  "errRow_Scan (errRow err) dest s = (err, s)
 \<and> Row_Scan L (Row_errRow (errRow err)) dest s = (err, s)
 \<and> Row_Scan L (Row_errRow (errRow err)) [] s = (err, s)"
  by simp

subsection \<open>Wrapping and unwrapping\<close>

text \<open>
  Claim C3. \<^verbatim>\<open>Unwrap\<close> of the wrapper that \<^verbatim>\<open>WrapDB\<close> builds from a native handle is that
  handle, the same pointer; \<^verbatim>\<open>Unwrap\<close> of the wrapper that \<^verbatim>\<open>WrapStmt\<close> builds from a
  native statement is that statement.
\<close>

theorem Unwrap_Wrap_identity:
  "wrappedDB_Unwrap (WrapDB h) = h \<and> wrappedStmt_Unwrap (WrapStmt stmt) = stmt"
  by (simp add: WrapDB_def WrapStmt_def)

subsection \<open>Open\<close>

text \<open>
  Claim C9. \<^verbatim>\<open>Open\<close> calls the library's \<^verbatim>\<open>sql.Open\<close> once, with the driver name and the
  data source name it was given. If that returns an error, \<^verbatim>\<open>Open\<close> returns a nil handle
  and that error; if it returns a nil error, \<^verbatim>\<open>Open\<close> returns the wrapper of the handle
  and a nil error.
\<close>

theorem Open_handle_or_error:
  assumes "sql_Open L driverName dataSourceName (world s) = ((db, err), w')"
  shows "(err \<noteq> None \<longrightarrow> fst (Open L driverName dataSourceName s) = (None, err))
       \<and> (err = None \<longrightarrow> fst (Open L driverName dataSourceName s) = (Some (WrapDB db), None))
       \<and> snd (Open L driverName dataSourceName s) =
           \<lparr>world = w', calls = calls s @ [sql_Open_call driverName dataSourceName]\<rparr>"
  using assms by (simp add: Open_def invoke_def)

text \<open>A failing and a succeeding \<^verbatim>\<open>Open\<close>.\<close>

theorem Open_handle_or_error_witness:
  "sql_Open script_lib ''postgres'' ''bad dsn'' (world (scripted [Some (Err ''cannot connect'')]))
     = ((sql_DB 0, Some (Err ''cannot connect'')), \<lparr>script = [], fresh = 1\<rparr>)
   \<and> Open script_lib ''postgres'' ''bad dsn'' (scripted [Some (Err ''cannot connect'')])
     = ((None, Some (Err ''cannot connect'')),
        \<lparr>world = \<lparr>script = [], fresh = 1\<rparr>, calls = [sql_Open_call ''postgres'' ''bad dsn'']\<rparr>)
   \<and> sql_Open script_lib ''postgres'' ''dsn'' (world (scripted []))
     = ((sql_DB 1, None), \<lparr>script = [], fresh = 2\<rparr>)
   \<and> Open script_lib ''postgres'' ''dsn'' (scripted [])
     = ((Some (WrapDB (sql_DB 1)), None),
        \<lparr>world = \<lparr>script = [], fresh = 2\<rparr>, calls = [sql_Open_call ''postgres'' ''dsn'']\<rparr>)"
proof -
  have h1: "sql_Open script_lib ''postgres'' ''bad dsn''
              (world (scripted [Some (Err ''cannot connect'')]))
            = ((sql_DB 0, Some (Err ''cannot connect'')), \<lparr>script = [], fresh = 1\<rparr>)"
    by (simp add: script_defs)
  have h2: "sql_Open script_lib ''postgres'' ''dsn'' (world (scripted []))
            = ((sql_DB 1, None), \<lparr>script = [], fresh = 2\<rparr>)"
    by (simp add: script_defs)
  from Open_handle_or_error [OF h1] Open_handle_or_error [OF h2] h1 h2
  show ?thesis
    by (simp add: scripted_def prod_eq_iff)
qed

end
